theory Spec2Isabelle
  imports
    Main
    "HOL-Library.FSet"
    "HOL-Library.Finite_Map"
    "HOL-Library.Char_ord"
    "HOL-Library.List_Lexorder"
    "HOL-Library.Sublist"
begin

section \<open>The credential store of docker-credential-gcr (store/store.go)\<close>

text \<open>
  The store keeps one JSON file. Every public operation opens the file, decodes the
  whole record, changes the copy in memory and writes the whole record back.
  The embedding follows \<^verbatim>\<open>store/store.go\<close> function by function. What the Go file
  imports is modelled once, below: errors of package \<^verbatim>\<open>os\<close>, the struct mapping of
  package \<^verbatim>\<open>encoding/json\<close>, and the text form of \<^verbatim>\<open>time.Time\<close>.
\<close>

subsection \<open>Errors\<close>

text \<open>
  Go errors are values with a message. \<open>PathError\<close> is \<^verbatim>\<open>*os.PathError\<close> (operation,
  path, cause); \<open>ErrorString\<close> is what \<^verbatim>\<open>errors.New\<close> and \<^verbatim>\<open>fmt.Errorf\<close> build; the
  other constructors are the errors of the JSON decoder and encoder.
\<close>

datatype errno = ENOENT | EACCES | ENOSPC | EROFS | EIO

datatype error =
    PathError string string errno
  | ErrorString string
  | EOF
  | SyntaxError string
  | UnmarshalTypeError string string
  | ParseError string
  | MarshalerError string

fun errno_message :: "errno \<Rightarrow> string" where
  "errno_message ENOENT = ''no such file or directory''"
| "errno_message EACCES = ''permission denied''"
| "errno_message ENOSPC = ''no space left on device''"
| "errno_message EROFS = ''read-only file system''"
| "errno_message EIO = ''input/output error''"

text \<open>The method \<^verbatim>\<open>Error()\<close>: the message that \<^verbatim>\<open>%v\<close> prints.\<close>

fun Error :: "error \<Rightarrow> string" where
  "Error (PathError op path e) = op @ '' '' @ path @ '': '' @ errno_message e"
| "Error (ErrorString s) = s"
| "Error EOF = ''EOF''"
| "Error (SyntaxError s) = s"
| "Error (UnmarshalTypeError v t) =
     ''json: cannot unmarshal '' @ v @ '' into Go value of type '' @ t"
| "Error (ParseError s) = ''parsing time '' @ s @ '': cannot parse as RFC 3339''"
| "Error (MarshalerError s) =
     ''json: error calling MarshalJSON for type *time.Time: '' @ s"

text \<open>\<^verbatim>\<open>os.IsNotExist\<close>: true of a path error whose cause is ENOENT, false of every
  error built from a message.\<close>

fun IsNotExist :: "error \<Rightarrow> bool" where
  "IsNotExist (PathError op path ENOENT) = True"
| "IsNotExist e = False"

text \<open>\<^verbatim>\<open>authErr\<close> (store.go, lines 304 to 309). The second argument is \<open>None\<close> for Go's
  \<^verbatim>\<open>nil\<close>. Only the message of the cause survives (\<^verbatim>\<open>%v\<close>).\<close>

fun authErr :: "string \<Rightarrow> error option \<Rightarrow> error" where
  "authErr message None = ErrorString (''docker-credential-gcr/store: '' @ message)"
| "authErr message (Some err) =
     ErrorString (''docker-credential-gcr/store: '' @ message @ '': '' @ Error err)"

text \<open>An error carries the prefix of the store when its message starts with it.\<close>

definition carries_prefix :: "error \<Rightarrow> bool" where
  "carries_prefix e = prefix ''docker-credential-gcr/store:'' (Error e)"

subsection \<open>The data of the store\<close>

text \<open>
  \<^verbatim>\<open>time.Time\<close> is kept as the RFC 3339 text that names the instant, the form in which
  the file holds it. \<open>rfc3339\<close> below says which texts are such a form.
\<close>

datatype time = Time string

text \<open>\<^verbatim>\<open>credentials.Credentials\<close> of docker-credential-helpers: three strings, no
  JSON tags.\<close>

record Credentials =
  ServerURL :: string
  Username :: string
  Secret :: string

text \<open>\<^verbatim>\<open>tokens\<close> (lines 40 to 44); the pointer \<^verbatim>\<open>*time.Time\<close> is an option.\<close>

record tokens =
  AccessToken :: string
  RefreshToken :: string
  TokenExpiry :: "time option"

text \<open>\<^verbatim>\<open>dockerCredentials\<close> (lines 46 to 49). The pointer and the map may both be
  \<^verbatim>\<open>nil\<close>, which the code tests (lines 120, 143, 171, 226): both are options, and an
  empty map that is not \<^verbatim>\<open>nil\<close> is \<open>Some fmempty\<close>.\<close>

record dockerCredentials =
  GCRCreds :: "tokens option"
  OtherCreds :: "(string, Credentials) fmap option"

definition zero_Credentials :: Credentials where
  "zero_Credentials = \<lparr>ServerURL = [], Username = [], Secret = []\<rparr>"

definition zero_tokens :: tokens where
  "zero_tokens = \<lparr>AccessToken = [], RefreshToken = [], TokenExpiry = None\<rparr>"

text \<open>\<^verbatim>\<open>&dockerCredentials{}\<close> and \<^verbatim>\<open>var creds dockerCredentials\<close>.\<close>

definition zero_dockerCredentials :: dockerCredentials where
  "zero_dockerCredentials = \<lparr>GCRCreds = None, OtherCreds = None\<rparr>"

text \<open>Reading a Go map that may be \<^verbatim>\<open>nil\<close>: \<^verbatim>\<open>v, present := m[k]\<close>.\<close>

fun map_index :: "(string, 'v) fmap option \<Rightarrow> string \<Rightarrow> 'v option" where
  "map_index None k = None"
| "map_index (Some m) k = fmlookup m k"

subsection \<open>JSON documents\<close>

text \<open>
  A JSON value as a tree. An object keeps its members in the order of the text.
  The text layer of \<^verbatim>\<open>encoding/json\<close> (tokens, escapes, white space, the replacement
  of bytes that are not UTF-8) is not part of the repository and is not modelled: a Go
  string and a JSON string are the same list of bytes, and the content of a file is
  either a JSON value, or text in which the decoder finds no complete value and reports
  an error.
\<close>

datatype json =
    JNull
  | JBool bool
  | JNumber string
  | JString string
  | JArray "json list"
  | JObject "(string \<times> json) list"

datatype content = Invalid error | Doc json

text \<open>The name the decoder gives a value in \<^verbatim>\<open>UnmarshalTypeError.Value\<close>.\<close>

fun json_kind :: "json \<Rightarrow> string" where
  "json_kind JNull = ''null''"
| "json_kind (JBool b) = ''bool''"
| "json_kind (JNumber n) = ''number''"
| "json_kind (JString s) = ''string''"
| "json_kind (JArray xs) = ''array''"
| "json_kind (JObject kvs) = ''object''"

subsection \<open>RFC 3339 texts\<close>

definition is_digit :: "char \<Rightarrow> bool" where
  "is_digit c = (48 \<le> (of_char c :: nat) \<and> (of_char c :: nat) \<le> 57)"

definition digit_val :: "char \<Rightarrow> nat" where
  "digit_val c = of_char c - 48"

definition two_digits :: "char \<Rightarrow> char \<Rightarrow> nat" where
  "two_digits a b = 10 * digit_val a + digit_val b"

definition leap_year :: "nat \<Rightarrow> bool" where
  "leap_year y = (y mod 4 = 0 \<and> (y mod 100 \<noteq> 0 \<or> y mod 400 = 0))"

definition days_in :: "nat \<Rightarrow> nat \<Rightarrow> nat" where
  "days_in m y =
     (if m = 2 then (if leap_year y then 29 else 28)
      else if m = 4 \<or> m = 6 \<or> m = 9 \<or> m = 11 then 30 else 31)"

text \<open>The zone: \<^verbatim>\<open>Z\<close>, or a sign, two digits of hours, a colon, two digits of minutes.\<close>

fun zone_ok :: "string \<Rightarrow> bool" where
  "zone_ok [z] = (z = CHR ''Z'')"
| "zone_ok [sg, h1, h2, c, m1, m2] =
     ((sg = CHR ''+'' \<or> sg = CHR ''-'') \<and> c = CHR '':''
      \<and> is_digit h1 \<and> is_digit h2 \<and> is_digit m1 \<and> is_digit m2
      \<and> two_digits h1 h2 < 24 \<and> two_digits m1 m2 < 60)"
| "zone_ok s = False"

text \<open>After the seconds: an optional fraction (a point and at least one digit), then
  the zone.\<close>

definition fraction_zone_ok :: "string \<Rightarrow> bool" where
  "fraction_zone_ok s =
     (case s of
        [] \<Rightarrow> False
      | c # r \<Rightarrow>
          if c = CHR ''.''
          then takeWhile is_digit r \<noteq> [] \<and> zone_ok (dropWhile is_digit r)
          else zone_ok s)"

fun rfc3339 :: "string \<Rightarrow> bool" where
  "rfc3339 (y1 # y2 # y3 # y4 # d1 # m1 # m2 # d2 # a1 # a2 # t # h1 # h2 # c1 # n1 # n2
            # c2 # s1 # s2 # rest) =
     (list_all is_digit [y1, y2, y3, y4, m1, m2, a1, a2, h1, h2, n1, n2, s1, s2]
      \<and> d1 = CHR ''-'' \<and> d2 = CHR ''-'' \<and> t = CHR ''T'' \<and> c1 = CHR '':'' \<and> c2 = CHR '':''
      \<and> 1 \<le> two_digits m1 m2 \<and> two_digits m1 m2 \<le> 12
      \<and> 1 \<le> two_digits a1 a2
      \<and> two_digits a1 a2 \<le> days_in (two_digits m1 m2)
            (100 * two_digits y1 y2 + two_digits y3 y4)
      \<and> two_digits h1 h2 < 24 \<and> two_digits n1 n2 < 60 \<and> two_digits s1 s2 < 60
      \<and> fraction_zone_ok rest)"
| "rfc3339 s = False"

text \<open>The zero value of \<^verbatim>\<open>time.Time\<close> (\<^verbatim>\<open>var expiry time.Time\<close>, line 175).\<close>

definition zero_time :: time where
  "zero_time = Time ''0001-01-01T00:00:00Z''"

subsection \<open>Encoding: \<^verbatim>\<open>json.Marshal\<close> on the store's types\<close>

text \<open>\<^verbatim>\<open>Time.MarshalJSON\<close> writes the RFC 3339 text as a JSON string and fails for a
  time that has none (a year outside 0 to 9999).\<close>

fun time_MarshalJSON :: "time \<Rightarrow> error + json" where
  "time_MarshalJSON (Time s) =
     (if rfc3339 s then Inr (JString s)
      else Inl (MarshalerError ''Time.MarshalJSON: year outside of range [0,9999]''))"

text \<open>\<^verbatim>\<open>tokens\<close>: three members, none with \<^verbatim>\<open>omitempty\<close>; a \<^verbatim>\<open>nil\<close> pointer is written
  as \<^verbatim>\<open>null\<close>.\<close>

definition encode_tokens :: "tokens \<Rightarrow> error + json" where
  "encode_tokens t =
     (case (case TokenExpiry t of None \<Rightarrow> Inr JNull | Some x \<Rightarrow> time_MarshalJSON x) of
        Inl e \<Rightarrow> Inl e
      | Inr j \<Rightarrow>
          Inr (JObject [(''access_token'', JString (AccessToken t)),
                        (''refresh_token'', JString (RefreshToken t)),
                        (''token_expiry'', j)]))"

definition encode_Credentials :: "Credentials \<Rightarrow> json" where
  "encode_Credentials c =
     JObject [(''ServerURL'', JString (ServerURL c)),
              (''Username'', JString (Username c)),
              (''Secret'', JString (Secret c))]"

text \<open>A Go map is written as an object whose members are sorted by key.\<close>

definition map_entries :: "(string, 'v) fmap \<Rightarrow> (string \<times> 'v) list" where
  "map_entries m =
     List.map_filter (\<lambda>k. map_option (Pair k) (fmlookup m k))
       (sorted_list_of_fset (fmdom m))"

definition encode_map :: "(string, Credentials) fmap \<Rightarrow> json" where
  "encode_map m = JObject (map (\<lambda>(k, c). (k, encode_Credentials c)) (map_entries m))"

text \<open>\<^verbatim>\<open>dockerCredentials\<close>: both members have \<^verbatim>\<open>omitempty\<close>, so a \<^verbatim>\<open>nil\<close> pointer and a
  map of length 0 (\<^verbatim>\<open>nil\<close> or not) are left out.\<close>

definition gcrCreds_members :: "tokens option \<Rightarrow> error + (string \<times> json) list" where
  "gcrCreds_members g =
     (case g of
        None \<Rightarrow> Inr []
      | Some t \<Rightarrow>
          (case encode_tokens t of Inl e \<Rightarrow> Inl e | Inr j \<Rightarrow> Inr [(''gcrCreds'', j)]))"

definition otherCreds_members ::
  "(string, Credentials) fmap option \<Rightarrow> (string \<times> json) list" where
  "otherCreds_members oc =
     (case oc of
        None \<Rightarrow> []
      | Some m \<Rightarrow> if fmdom m = {||} then [] else [(''otherCreds'', encode_map m)])"

definition Marshal :: "dockerCredentials \<Rightarrow> error + json" where
  "Marshal creds =
     (case gcrCreds_members (GCRCreds creds) of
        Inl e \<Rightarrow> Inl e
      | Inr g \<Rightarrow> Inr (JObject (g @ otherCreds_members (OtherCreds creds))))"

subsection \<open>Decoding: \<^verbatim>\<open>json.Unmarshal\<close> on the store's types\<close>

text \<open>
  The decoder matches a member's key with a field's name without regard to case.
  \<open>equalFold\<close> folds the ASCII letters.
\<close>

definition lower :: "char \<Rightarrow> char" where
  "lower c =
     (if 65 \<le> (of_char c :: nat) \<and> (of_char c :: nat) \<le> 90
      then char_of ((of_char c :: nat) + 32) else c)"

definition equalFold :: "string \<Rightarrow> string \<Rightarrow> bool" where
  "equalFold a b = (map lower a = map lower b)"

text \<open>
  A value of the wrong kind does not stop the decoder: it keeps the first such error
  (\<^verbatim>\<open>saveError\<close>), goes on, and returns it at the end. A decoding step therefore carries
  the value built so far and the saved error. An error of \<^verbatim>\<open>UnmarshalJSON\<close> stops the
  decoder at once: that is \<open>Inl\<close>.
\<close>

type_synonym 'a decoding = "'a \<times> error option"

fun saveError :: "error \<Rightarrow> error option \<Rightarrow> error option" where
  "saveError e None = Some e"
| "saveError e (Some e0) = Some e0"

text \<open>A value into a Go string: \<^verbatim>\<open>null\<close> leaves the field as it is.\<close>

fun store_string :: "json \<Rightarrow> string decoding \<Rightarrow> string decoding" where
  "store_string (JString s) (old, sv) = (s, sv)"
| "store_string JNull (old, sv) = (old, sv)"
| "store_string j (old, sv) =
     (old, saveError (UnmarshalTypeError (json_kind j) ''string'') sv)"

text \<open>A value into \<^verbatim>\<open>*time.Time\<close>: \<^verbatim>\<open>null\<close> sets the pointer to \<^verbatim>\<open>nil\<close>; anything else
  goes to \<^verbatim>\<open>Time.UnmarshalJSON\<close>, which accepts a string in RFC 3339 form only.\<close>

fun store_time :: "json \<Rightarrow> error + time option" where
  "store_time JNull = Inr None"
| "store_time (JString s) =
     (if rfc3339 s then Inr (Some (Time s)) else Inl (ParseError s))"
| "store_time j = Inl (ParseError (json_kind j))"

text \<open>The members of an object, in order, each handled by \<open>f\<close>.\<close>

fun members ::
  "(string \<times> json \<Rightarrow> 'a decoding \<Rightarrow> error + 'a decoding) \<Rightarrow> (string \<times> json) list
   \<Rightarrow> 'a decoding \<Rightarrow> error + 'a decoding" where
  "members f [] acc = Inr acc"
| "members f (kv # kvs) acc =
     (case f kv acc of Inl e \<Rightarrow> Inl e | Inr acc' \<Rightarrow> members f kvs acc')"

fun tokens_member :: "string \<times> json \<Rightarrow> tokens decoding \<Rightarrow> error + tokens decoding" where
  "tokens_member (k, v) (t, sv) =
     (if equalFold k ''access_token''
      then (case store_string v (AccessToken t, sv) of
              (s, sv') \<Rightarrow> Inr (t\<lparr>AccessToken := s\<rparr>, sv'))
      else if equalFold k ''refresh_token''
      then (case store_string v (RefreshToken t, sv) of
              (s, sv') \<Rightarrow> Inr (t\<lparr>RefreshToken := s\<rparr>, sv'))
      else if equalFold k ''token_expiry''
      then (case store_time v of
              Inl e \<Rightarrow> Inl e
            | Inr x \<Rightarrow> Inr (t\<lparr>TokenExpiry := x\<rparr>, sv))
      else Inr (t, sv))"

text \<open>A value into \<^verbatim>\<open>*tokens\<close>: \<^verbatim>\<open>null\<close> sets the pointer to \<^verbatim>\<open>nil\<close>; any other value
  allocates the struct if the pointer is \<^verbatim>\<open>nil\<close>, and an object fills it.\<close>

fun alloc_tokens :: "tokens option \<Rightarrow> tokens" where
  "alloc_tokens None = zero_tokens"
| "alloc_tokens (Some t) = t"

fun store_tokens :: "json \<Rightarrow> tokens option decoding \<Rightarrow> error + tokens option decoding" where
  "store_tokens JNull (old, sv) = Inr (None, sv)"
| "store_tokens (JObject kvs) (old, sv) =
     (case members tokens_member kvs (alloc_tokens old, sv) of
        Inl e \<Rightarrow> Inl e
      | Inr (t, sv') \<Rightarrow> Inr (Some t, sv'))"
| "store_tokens j (old, sv) =
     Inr (Some (alloc_tokens old),
          saveError (UnmarshalTypeError (json_kind j) ''store.tokens'') sv)"

fun Credentials_member ::
  "string \<times> json \<Rightarrow> Credentials decoding \<Rightarrow> error + Credentials decoding" where
  "Credentials_member (k, v) (c, sv) =
     (if equalFold k ''ServerURL''
      then (case store_string v (ServerURL c, sv) of
              (s, sv') \<Rightarrow> Inr (c\<lparr>ServerURL := s\<rparr>, sv'))
      else if equalFold k ''Username''
      then (case store_string v (Username c, sv) of
              (s, sv') \<Rightarrow> Inr (c\<lparr>Username := s\<rparr>, sv'))
      else if equalFold k ''Secret''
      then (case store_string v (Secret c, sv) of
              (s, sv') \<Rightarrow> Inr (c\<lparr>Secret := s\<rparr>, sv'))
      else Inr (c, sv))"

fun store_Credentials ::
  "json \<Rightarrow> Credentials decoding \<Rightarrow> error + Credentials decoding" where
  "store_Credentials JNull (old, sv) = Inr (old, sv)"
| "store_Credentials (JObject kvs) (old, sv) = members Credentials_member kvs (old, sv)"
| "store_Credentials j (old, sv) =
     Inr (old, saveError (UnmarshalTypeError (json_kind j) ''credentials.Credentials'') sv)"

text \<open>A member of the map: the value is decoded into a fresh element, which then
  replaces whatever the key held.\<close>

fun map_member ::
  "string \<times> json \<Rightarrow> (string, Credentials) fmap decoding
   \<Rightarrow> error + (string, Credentials) fmap decoding" where
  "map_member (k, v) (m, sv) =
     (case store_Credentials v (zero_Credentials, sv) of
        Inl e \<Rightarrow> Inl e
      | Inr (c, sv') \<Rightarrow> Inr (fmupd k c m, sv'))"

fun alloc_map :: "(string, Credentials) fmap option \<Rightarrow> (string, Credentials) fmap" where
  "alloc_map None = fmempty"
| "alloc_map (Some m) = m"

fun store_map ::
  "json \<Rightarrow> (string, Credentials) fmap option decoding
   \<Rightarrow> error + (string, Credentials) fmap option decoding" where
  "store_map JNull (old, sv) = Inr (None, sv)"
| "store_map (JObject kvs) (old, sv) =
     (case members map_member kvs (alloc_map old, sv) of
        Inl e \<Rightarrow> Inl e
      | Inr (m, sv') \<Rightarrow> Inr (Some m, sv'))"
| "store_map j (old, sv) =
     Inr (old,
          saveError (UnmarshalTypeError (json_kind j) ''map[string]credentials.Credentials'')
            sv)"

fun dockerCredentials_member ::
  "string \<times> json \<Rightarrow> dockerCredentials decoding \<Rightarrow> error + dockerCredentials decoding" where
  "dockerCredentials_member (k, v) (c, sv) =
     (if equalFold k ''gcrCreds''
      then (case store_tokens v (GCRCreds c, sv) of
              Inl e \<Rightarrow> Inl e
            | Inr (g, sv') \<Rightarrow> Inr (c\<lparr>GCRCreds := g\<rparr>, sv'))
      else if equalFold k ''otherCreds''
      then (case store_map v (OtherCreds c, sv) of
              Inl e \<Rightarrow> Inl e
            | Inr (m, sv') \<Rightarrow> Inr (c\<lparr>OtherCreds := m\<rparr>, sv'))
      else Inr (c, sv))"

fun store_dockerCredentials ::
  "json \<Rightarrow> dockerCredentials decoding \<Rightarrow> error + dockerCredentials decoding" where
  "store_dockerCredentials JNull (old, sv) = Inr (old, sv)"
| "store_dockerCredentials (JObject kvs) (old, sv) =
     members dockerCredentials_member kvs (old, sv)"
| "store_dockerCredentials j (old, sv) =
     Inr (old, saveError (UnmarshalTypeError (json_kind j) ''store.dockerCredentials'') sv)"

text \<open>\<^verbatim>\<open>var creds dockerCredentials; Decode(&creds)\<close>: the value starts as the zero
  record; a saved error is returned when the value has been read to its end.\<close>

definition Unmarshal :: "json \<Rightarrow> error + dockerCredentials" where
  "Unmarshal j =
     (case store_dockerCredentials j (zero_dockerCredentials, None) of
        Inl e \<Rightarrow> Inl e
      | Inr (c, Some e) \<Rightarrow> Inl e
      | Inr (c, None) \<Rightarrow> Inr c)"

fun Decode :: "content \<Rightarrow> error + dockerCredentials" where
  "Decode (Invalid e) = Inl e"
| "Decode (Doc j) = Unmarshal j"

subsection \<open>The file system\<close>

text \<open>
  \<open>files\<close> gives the content of each path that exists. Opening a path for reading
  fails when no file is there, with ENOENT. The four other fields say how the calls of
  the write path fail at this moment, if they do: each holds the error the call returns
  (\<^verbatim>\<open>os.MkdirAll\<close>, \<^verbatim>\<open>os.Create\<close>, the write through the file, \<^verbatim>\<open>f.Close\<close>).
\<close>

record filesystem =
  files :: "string \<rightharpoonup> content"
  mkdir_fault :: "error option"
  create_fault :: "error option"
  write_fault :: "error option"
  close_fault :: "error option"

text \<open>\<^verbatim>\<open>credStore\<close> (lines 80 to 82).\<close>

record credStore =
  credentialPath :: string

text \<open>\<^verbatim>\<open>os.Open\<close>.\<close>

definition os_Open :: "string \<Rightarrow> filesystem \<Rightarrow> error + content" where
  "os_Open path fs =
     (case files fs path of
        None \<Rightarrow> Inl (PathError ''open'' path ENOENT)
      | Some c \<Rightarrow> Inr c)"

text \<open>\<^verbatim>\<open>createCredentialFile\<close> (lines 233 to 244). \<^verbatim>\<open>os.Create\<close> makes the file or
  truncates it: the file then exists and is empty, and the decoder reads \<^verbatim>\<open>io.EOF\<close>
  from an empty file. The file handle is the path.\<close>

definition createCredentialFile :: "credStore \<Rightarrow> filesystem \<Rightarrow> (error + string) \<times> filesystem" where
  "createCredentialFile s fs =
     (case mkdir_fault fs of
        Some err \<Rightarrow> (Inl err, fs)
      | None \<Rightarrow>
          (case create_fault fs of
             Some err \<Rightarrow> (Inl (authErr ''failed to create credential file'' (Some err)), fs)
           | None \<Rightarrow>
               (Inr (credentialPath s),
                fs\<lparr>files := (files fs)(credentialPath s \<mapsto> Invalid EOF)\<rparr>)))"

text \<open>\<^verbatim>\<open>loadDockerCredentials\<close> (lines 246 to 260).\<close>

definition loadDockerCredentials :: "credStore \<Rightarrow> filesystem \<Rightarrow> error + dockerCredentials" where
  "loadDockerCredentials s fs =
     (let path = credentialPath s in
      case os_Open path fs of
        Inl err \<Rightarrow> Inl err
      | Inr f \<Rightarrow>
          (case Decode f of
             Inl err \<Rightarrow> Inl (authErr (''failed to decode credentials from '' @ path) (Some err))
           | Inr creds \<Rightarrow> Inr creds))"

text \<open>\<^verbatim>\<open>json.NewEncoder(f).Encode(creds)\<close>: the value is marshalled first, and nothing is
  written when that fails; a write that fails leaves the file as \<^verbatim>\<open>os.Create\<close> left
  it.\<close>

definition Encode :: "string \<Rightarrow> dockerCredentials \<Rightarrow> filesystem \<Rightarrow> error option \<times> filesystem" where
  "Encode f creds fs =
     (case Marshal creds of
        Inl err \<Rightarrow> (Some err, fs)
      | Inr j \<Rightarrow>
          (case write_fault fs of
             Some err \<Rightarrow> (Some err, fs)
           | None \<Rightarrow> (None, fs\<lparr>files := (files fs)(f \<mapsto> Doc j)\<rparr>)))"

text \<open>\<^verbatim>\<open>setDockerCredentials\<close> (lines 262 to 273): the error of \<^verbatim>\<open>Close\<close> is returned
  only when encoding gave none.\<close>

definition setDockerCredentials ::
  "credStore \<Rightarrow> dockerCredentials \<Rightarrow> filesystem \<Rightarrow> error option \<times> filesystem" where
  "setDockerCredentials s creds fs =
     (case createCredentialFile s fs of
        (Inl err, fs') \<Rightarrow> (Some err, fs')
      | (Inr f, fs') \<Rightarrow>
          (case Encode f creds fs' of
             (err, fs'') \<Rightarrow>
               (let cerr = close_fault fs'' in
                if err = None then (cerr, fs'') else (err, fs''))))"

subsection \<open>Third-party credentials\<close>

text \<open>\<^verbatim>\<open>AllThirdPartyCreds\<close> (lines 155 to 162).\<close>

definition AllThirdPartyCreds ::
  "credStore \<Rightarrow> filesystem \<Rightarrow> error + (string, Credentials) fmap option" where
  "AllThirdPartyCreds s fs =
     (case loadDockerCredentials s fs of
        Inl err \<Rightarrow> Inl err
      | Inr allCreds \<Rightarrow> Inr (OtherCreds allCreds))"

text \<open>\<^verbatim>\<open>GetOtherCreds\<close> (lines 95 to 107).\<close>

definition GetOtherCreds :: "credStore \<Rightarrow> string \<Rightarrow> filesystem \<Rightarrow> error + Credentials" where
  "GetOtherCreds s serverURL fs =
     (case AllThirdPartyCreds s fs of
        Inl err \<Rightarrow> Inl err
      | Inr all3pCreds \<Rightarrow>
          (case map_index all3pCreds serverURL of
             None \<Rightarrow> Inl (authErr (''no credentials present for '' @ serverURL) None)
           | Some creds \<Rightarrow> Inr creds))"

text \<open>\<^verbatim>\<open>SetOtherCreds\<close> (lines 111 to 127). The argument is a pointer and the function
  writes through it, so the credential as the caller sees it afterwards is returned as
  the second component. The map is not \<^verbatim>\<open>nil\<close> when line 124 assigns to it.\<close>

definition SetOtherCreds ::
  "credStore \<Rightarrow> Credentials \<Rightarrow> filesystem \<Rightarrow> error option \<times> Credentials \<times> filesystem" where
  "SetOtherCreds s newCreds0 fs =
     (let serverURL = ServerURL newCreds0;
          newCreds = newCreds0\<lparr>ServerURL := []\<rparr>;
          creds = (case loadDockerCredentials s fs of
                     Inl err \<Rightarrow> zero_dockerCredentials
                   | Inr c \<Rightarrow> c);
          creds = (if OtherCreds creds = None then creds\<lparr>OtherCreds := Some fmempty\<rparr>
                   else creds);
          creds = creds\<lparr>OtherCreds := map_option (fmupd serverURL newCreds) (OtherCreds creds)\<rparr>
      in case setDockerCredentials s creds fs of
           (err, fs') \<Rightarrow> (err, newCreds, fs'))"

text \<open>\<^verbatim>\<open>DeleteOtherCreds\<close> (lines 132 to 151).\<close>

definition DeleteOtherCreds :: "credStore \<Rightarrow> string \<Rightarrow> filesystem \<Rightarrow> error option \<times> filesystem" where
  "DeleteOtherCreds s serverURL fs =
     (case loadDockerCredentials s fs of
        Inl err \<Rightarrow> if IsNotExist err then (None, fs) else (Some err, fs)
      | Inr creds \<Rightarrow>
          (case OtherCreds creds of
             None \<Rightarrow> (None, fs)
           | Some m \<Rightarrow>
               if fmlookup m serverURL \<noteq> None
               then setDockerCredentials s (creds\<lparr>OtherCreds := Some (fmdrop serverURL m)\<rparr>) fs
               else (None, fs)))"

subsection \<open>The GCR tokens\<close>

text \<open>\<^verbatim>\<open>oauth2.Token\<close>, \<^verbatim>\<open>oauth2.Endpoint\<close>, \<^verbatim>\<open>oauth2.Config\<close> and \<^verbatim>\<open>GCRAuth\<close> (lines 52 to
  55). The field names of the token carry a prefix, since \<open>tokens\<close> has the same ones.\<close>

record oauth2_Token =
  Token_AccessToken :: string
  Token_TokenType :: string
  Token_RefreshToken :: string
  Token_Expiry :: time

record oauth2_Endpoint =
  AuthURL :: string
  TokenURL :: string

record oauth2_Config =
  ClientID :: string
  ClientSecret :: string
  Endpoint :: oauth2_Endpoint
  RedirectURL :: string
  Scopes :: "string list"

record GCRAuth =
  conf :: oauth2_Config
  initialToken :: oauth2_Token

text \<open>The constants of package \<^verbatim>\<open>config\<close> and \<^verbatim>\<open>google.Endpoint\<close>, which are not in
  store.go, are taken as a parameter.\<close>

record constants =
  GCRCredHelperClientID :: string
  GCRCredHelperClientNotSoSecret :: string
  GCRScopes :: "string list"
  google_Endpoint :: oauth2_Endpoint

text \<open>\<^verbatim>\<open>GetGCRAuth\<close> (lines 165 to 194).\<close>

definition GetGCRAuth :: "constants \<Rightarrow> credStore \<Rightarrow> filesystem \<Rightarrow> error + GCRAuth" where
  "GetGCRAuth config s fs =
     (case loadDockerCredentials s fs of
        Inl err \<Rightarrow> Inl err
      | Inr creds \<Rightarrow>
          (case GCRCreds creds of
             None \<Rightarrow> Inl (ErrorString ''GCR Credentials not present in store'')
           | Some g \<Rightarrow>
               (let expiry = (case TokenExpiry g of None \<Rightarrow> zero_time | Some t \<Rightarrow> t)
                in Inr \<lparr>conf = \<lparr>ClientID = GCRCredHelperClientID config,
                                ClientSecret = GCRCredHelperClientNotSoSecret config,
                                Endpoint = google_Endpoint config,
                                RedirectURL = ''oob'',
                                Scopes = GCRScopes config\<rparr>,
                        initialToken = \<lparr>Token_AccessToken = AccessToken g,
                                        Token_TokenType = [],
                                        Token_RefreshToken = RefreshToken g,
                                        Token_Expiry = expiry\<rparr>\<rparr>)))"

text \<open>\<^verbatim>\<open>SetGCRAuth\<close> (lines 197 to 212).\<close>

definition SetGCRAuth :: "credStore \<Rightarrow> oauth2_Token \<Rightarrow> filesystem \<Rightarrow> error option \<times> filesystem" where
  "SetGCRAuth s tok fs =
     (let creds = (case loadDockerCredentials s fs of
                     Inl err \<Rightarrow> zero_dockerCredentials
                   | Inr c \<Rightarrow> c);
          creds = creds\<lparr>GCRCreds := Some \<lparr>AccessToken = Token_AccessToken tok,
                                          RefreshToken = Token_RefreshToken tok,
                                          TokenExpiry = Some (Token_Expiry tok)\<rparr>\<rparr>
      in setDockerCredentials s creds fs)"

text \<open>\<^verbatim>\<open>DeleteGCRAuth\<close> (lines 215 to 231).\<close>

definition DeleteGCRAuth :: "credStore \<Rightarrow> filesystem \<Rightarrow> error option \<times> filesystem" where
  "DeleteGCRAuth s fs =
     (case loadDockerCredentials s fs of
        Inl err \<Rightarrow> if IsNotExist err then (None, fs) else (Some err, fs)
      | Inr creds \<Rightarrow>
          if GCRCreds creds \<noteq> None
          then setDockerCredentials s (creds\<lparr>GCRCreds := None\<rparr>) fs
          else (None, fs))"

subsection \<open>Notions used to state the properties\<close>






text \<open>The keys of an object and the value under a key.\<close>

fun object_keys :: "json \<Rightarrow> string list" where
  "object_keys (JObject kvs) = map fst kvs"
| "object_keys j = []"

fun object_member :: "json \<Rightarrow> string \<Rightarrow> json option" where
  "object_member (JObject kvs) k = map_of kvs k"
| "object_member j k = None"

text \<open>Values for the examples: a store, a file system without files and without
  faults, a credential, a token.\<close>

definition example_store :: credStore where
  "example_store = \<lparr>credentialPath = ''/home/u/.config/gcloud/docker_credentials.json''\<rparr>"

definition empty_fs :: filesystem where
  "empty_fs = \<lparr>files = Map.empty, mkdir_fault = None, create_fault = None,
               write_fault = None, close_fault = None\<rparr>"

definition example_cred :: Credentials where
  "example_cred = \<lparr>ServerURL = ''https://x'', Username = ''u'', Secret = ''s''\<rparr>"


text \<open>A prior file that is no JSON, a file whose member has the wrong kind, the
  file system holding one given file, the file system after one credential was stored,
  a record with both kinds of credential and the document it is written as.\<close>

definition fs_with :: "content \<Rightarrow> filesystem" where
  "fs_with c = empty_fs\<lparr>files := [credentialPath example_store \<mapsto> c]\<rparr>"


definition corrupt_content :: content where
  "corrupt_content = Doc (JObject [(''otherCreds'', JNumber ''5'')])"

definition one_cred_fs :: filesystem where
  "one_cred_fs = snd (snd (SetOtherCreds example_store example_cred empty_fs))"

definition example_record :: dockerCredentials where
  "example_record =
     \<lparr>GCRCreds = Some \<lparr>AccessToken = ''a1'', RefreshToken = ''r1'',
                        TokenExpiry = Some (Time ''2016-05-01T10:00:00Z'')\<rparr>,
      OtherCreds = Some (fmupd ''https://x''
                           \<lparr>ServerURL = [], Username = ''u'', Secret = ''s''\<rparr> fmempty)\<rparr>"

definition example_doc :: json where
  "example_doc =
     JObject [(''gcrCreds'',
               JObject [(''access_token'', JString ''a1''),
                        (''refresh_token'', JString ''r1''),
                        (''token_expiry'', JString ''2016-05-01T10:00:00Z'')]),
              (''otherCreds'',
               JObject [(''https://x'',
                         JObject [(''ServerURL'', JString []),
                                  (''Username'', JString ''u''),
                                  (''Secret'', JString ''s'')])])]"

text \<open>The length of a Go map that may be \<^verbatim>\<open>nil\<close>: \<^verbatim>\<open>len(m)\<close>.\<close>

fun map_len :: "(string, 'v) fmap option \<Rightarrow> nat" where
  "map_len None = 0"
| "map_len (Some m) = fcard (fmdom m)"

text \<open>A record whose tokens have no expiry, as read from a file without that member,
  and values for the constants of \<open>GetGCRAuth\<close>.\<close>

definition no_expiry_record :: dockerCredentials where
  "no_expiry_record =
     \<lparr>GCRCreds = Some \<lparr>AccessToken = ''a1'', RefreshToken = ''r1'', TokenExpiry = None\<rparr>,
      OtherCreds = None\<rparr>"

definition example_constants :: constants where
  "example_constants =
     \<lparr>GCRCredHelperClientID = ''id'', GCRCredHelperClientNotSoSecret = ''secret'',
      GCRScopes = [''scope''],
      google_Endpoint = \<lparr>AuthURL = ''auth'', TokenURL = ''token''\<rparr>\<rparr>"

text \<open>A file system on which the file cannot be created, and a file whose map of
  third-party credentials is present and empty.\<close>

definition no_create_fs :: filesystem where
  "no_create_fs =
     empty_fs\<lparr>create_fault := Some (PathError ''open'' (credentialPath example_store) EACCES)\<rparr>"

definition empty_map_content :: content where
  "empty_map_content = Doc (JObject [(''otherCreds'', JObject [])])"

section \<open>Properties of the codec\<close>


subsection \<open>Reading back what was written\<close>









subsection \<open>What was read can be written\<close>












section \<open>Properties of the store\<close>

subsection \<open>Loading and writing\<close>





lemma load_absent:
  "files fs (credentialPath s) = None \<Longrightarrow>
   loadDockerCredentials s fs = Inl (PathError ''open'' (credentialPath s) ENOENT)"
  by (simp add: loadDockerCredentials_def os_Open_def)

lemma load_corrupt:
  "files fs (credentialPath s) = Some c \<Longrightarrow> Decode c = Inl e \<Longrightarrow>
   loadDockerCredentials s fs
   = Inl (authErr (''failed to decode credentials from '' @ credentialPath s) (Some e))"
  by (simp add: loadDockerCredentials_def os_Open_def)

lemma load_valid:
  "files fs (credentialPath s) = Some c \<Longrightarrow> Decode c = Inr r \<Longrightarrow>
   loadDockerCredentials s fs = Inr r"
  by (simp add: loadDockerCredentials_def os_Open_def)



lemma SetOtherCreds_eq:
  "SetOtherCreds s c fs =
     (let l = (case loadDockerCredentials s fs of
                 Inl err \<Rightarrow> zero_dockerCredentials | Inr x \<Rightarrow> x);
          r = l\<lparr>OtherCreds := Some (fmupd (ServerURL c) (c\<lparr>ServerURL := []\<rparr>)
                                     (alloc_map (OtherCreds l)))\<rparr>
      in (fst (setDockerCredentials s r fs), c\<lparr>ServerURL := []\<rparr>,
          snd (setDockerCredentials s r fs)))"
  by (cases "OtherCreds (case loadDockerCredentials s fs of
                           Inl err \<Rightarrow> zero_dockerCredentials | Inr x \<Rightarrow> x)")
     (simp_all add: SetOtherCreds_def Let_def split: prod.splits)


lemma load_one_cred_fs:
  "loadDockerCredentials example_store one_cred_fs
   = Inr \<lparr>GCRCreds = None,
          OtherCreds = Some (fmupd ''https://x''
                               \<lparr>ServerURL = [], Username = ''u'', Secret = ''s''\<rparr> fmempty)\<rparr>"
  by code_simp

subsection \<open>Deleting twice\<close>





subsection \<open>The prefix of the store's own errors\<close>

lemma carries_prefix_authErr: "carries_prefix (authErr m e)"
  by (cases e) (simp_all add: carries_prefix_def)

lemma no_prefix_open: "\<not> carries_prefix (PathError ''open'' p ENOENT)"
  by (simp add: carries_prefix_def)

lemma setDockerCredentials_create_fault:
  "mkdir_fault fs = None \<Longrightarrow> create_fault fs = Some e \<Longrightarrow>
   setDockerCredentials s creds fs
   = (Some (authErr ''failed to create credential file'' (Some e)), fs)"
  by (simp add: setDockerCredentials_def createCredentialFile_def)

section \<open>The claims\<close>






text \<open>
  C3. The results of \<open>GetOtherCreds\<close> for a URL \<open>u\<close>. When the file is missing, the
  error of opening it comes back, a not-exist error. When the file decodes to a record
  without an entry for \<open>u\<close>, the error is the store's "no credentials present for u".
  When the content does not decode, the error is the store's "failed to decode
  credentials from" the path, with the decoder's message. Otherwise the stored
  credential is returned.
\<close>

theorem GetOtherCreds_results:
  "(files fs (credentialPath s) = None \<longrightarrow>
      GetOtherCreds s u fs = Inl (PathError ''open'' (credentialPath s) ENOENT)
      \<and> IsNotExist (PathError ''open'' (credentialPath s) ENOENT))
   \<and> (files fs (credentialPath s) = Some c \<and> Decode c = Inr r
        \<and> map_index (OtherCreds r) u = None \<longrightarrow>
      GetOtherCreds s u fs = Inl (authErr (''no credentials present for '' @ u) None))
   \<and> (files fs (credentialPath s) = Some c \<and> Decode c = Inl e \<longrightarrow>
      GetOtherCreds s u fs
      = Inl (authErr (''failed to decode credentials from '' @ credentialPath s) (Some e)))
   \<and> (files fs (credentialPath s) = Some c \<and> Decode c = Inr r
        \<and> map_index (OtherCreds r) u = Some cr \<longrightarrow>
      GetOtherCreds s u fs = Inr cr)"
  by (auto simp: GetOtherCreds_def AllThirdPartyCreds_def load_absent load_corrupt load_valid)

theorem GetOtherCreds_results_witness:
  "GetOtherCreds example_store ''https://x'' empty_fs
     = Inl (PathError ''open'' (credentialPath example_store) ENOENT)
   \<and> GetOtherCreds example_store ''https://y'' (fs_with (Doc example_doc))
     = Inl (ErrorString ''docker-credential-gcr/store: no credentials present for https://y'')
   \<and> GetOtherCreds example_store ''https://x'' (fs_with corrupt_content)
     = Inl (authErr (''failed to decode credentials from '' @ credentialPath example_store)
              (Some (UnmarshalTypeError ''number'' ''map[string]credentials.Credentials'')))
   \<and> GetOtherCreds example_store ''https://x'' (fs_with (Doc example_doc))
     = Inr \<lparr>ServerURL = [], Username = ''u'', Secret = ''s''\<rparr>"
proof -
  have a: "files empty_fs (credentialPath example_store) = None"
    by (simp add: empty_fs_def)
  have f: "files (fs_with x) (credentialPath example_store) = Some x" for x
    by (simp add: fs_with_def)
  have d: "Decode (Doc example_doc) = Inr example_record" by code_simp
  have y: "map_index (OtherCreds example_record) ''https://y'' = None" by code_simp
  have x: "map_index (OtherCreds example_record) ''https://x''
           = Some \<lparr>ServerURL = [], Username = ''u'', Secret = ''s''\<rparr>" by code_simp
  have k: "Decode corrupt_content
           = Inl (UnmarshalTypeError ''number'' ''map[string]credentials.Credentials'')"
    by code_simp
  have 1: "GetOtherCreds example_store ''https://x'' empty_fs
     = Inl (PathError ''open'' (credentialPath example_store) ENOENT)"
    using GetOtherCreds_results[where fs=empty_fs and s=example_store] a by blast
  have 2: "GetOtherCreds example_store ''https://y'' (fs_with (Doc example_doc))
     = Inl (authErr (''no credentials present for '' @ ''https://y'') None)"
    using GetOtherCreds_results[where fs="fs_with (Doc example_doc)" and s=example_store
        and c="Doc example_doc" and r=example_record and u="''https://y''"] f d y
    by blast
  have 3: "GetOtherCreds example_store ''https://x'' (fs_with corrupt_content)
     = Inl (authErr (''failed to decode credentials from '' @ credentialPath example_store)
              (Some (UnmarshalTypeError ''number'' ''map[string]credentials.Credentials'')))"
    using GetOtherCreds_results[where fs="fs_with corrupt_content" and s=example_store
        and c=corrupt_content] f k
    by blast
  have 4: "GetOtherCreds example_store ''https://x'' (fs_with (Doc example_doc))
     = Inr \<lparr>ServerURL = [], Username = ''u'', Secret = ''s''\<rparr>"
    using GetOtherCreds_results[where fs="fs_with (Doc example_doc)" and s=example_store
        and c="Doc example_doc" and r=example_record and u="''https://x''"] f d x
    by blast
  show ?thesis using 1 2 3 4 by simp
qed



text \<open>
  C5. A file that does not decode. When the content of the file does not decode to a
  record, \<open>GetOtherCreds\<close>, \<open>GetGCRAuth\<close>, \<open>AllThirdPartyCreds\<close>, \<open>DeleteGCRAuth\<close> and
  \<open>DeleteOtherCreds\<close> all return the store's decode error (the path and the decoder's
  message), and the two delete operations leave the file system as it was.
\<close>

theorem corrupt_file_propagates:
  assumes "files fs (credentialPath s) = Some c" and "Decode c = Inl e"
  shows "GetOtherCreds s u fs
         = Inl (authErr (''failed to decode credentials from '' @ credentialPath s) (Some e))
       \<and> GetGCRAuth config s fs
         = Inl (authErr (''failed to decode credentials from '' @ credentialPath s) (Some e))
       \<and> AllThirdPartyCreds s fs
         = Inl (authErr (''failed to decode credentials from '' @ credentialPath s) (Some e))
       \<and> DeleteGCRAuth s fs
         = (Some (authErr (''failed to decode credentials from '' @ credentialPath s) (Some e)),
            fs)
       \<and> DeleteOtherCreds s u fs
         = (Some (authErr (''failed to decode credentials from '' @ credentialPath s) (Some e)),
            fs)"
  using load_corrupt[OF assms]
  by (simp add: GetOtherCreds_def GetGCRAuth_def AllThirdPartyCreds_def DeleteGCRAuth_def
      DeleteOtherCreds_def)

theorem corrupt_file_propagates_witness:
  "files (fs_with corrupt_content) (credentialPath example_store) = Some corrupt_content
   \<and> Decode corrupt_content
     = Inl (UnmarshalTypeError ''number'' ''map[string]credentials.Credentials'')
   \<and> DeleteOtherCreds example_store ''https://x'' (fs_with corrupt_content)
     = (Some (authErr (''failed to decode credentials from '' @ credentialPath example_store)
                (Some (UnmarshalTypeError ''number'' ''map[string]credentials.Credentials''))),
        fs_with corrupt_content)
   \<and> GetGCRAuth example_constants example_store (fs_with corrupt_content)
     = Inl (authErr (''failed to decode credentials from '' @ credentialPath example_store)
                (Some (UnmarshalTypeError ''number'' ''map[string]credentials.Credentials'')))"
proof -
  have f: "files (fs_with corrupt_content) (credentialPath example_store) = Some corrupt_content"
    by (simp add: fs_with_def)
  have k: "Decode corrupt_content
           = Inl (UnmarshalTypeError ''number'' ''map[string]credentials.Credentials'')"
    by code_simp
  from corrupt_file_propagates[OF f k, where u="''https://x''" and config=example_constants] f k
  show ?thesis by blast
qed



text \<open>
  C7. What the encoder leaves out. As stated (every absent optional field is left out,
  the expiry included) it fails for the expiry: the member \<^verbatim>\<open>token_expiry\<close> has no
  \<^verbatim>\<open>omitempty\<close>, and tokens without an expiry are written with \<^verbatim>\<open>token_expiry\<close> set to
  \<^verbatim>\<open>null\<close>. The counterexample: the record read from a file whose tokens have no
  \<^verbatim>\<open>token_expiry\<close> member is written with that member, as \<^verbatim>\<open>null\<close>.
\<close>

theorem token_expiry_counterexample:
  "Decode (Doc (JObject [(''gcrCreds'', JObject [(''access_token'', JString ''a1''),
                                               (''refresh_token'', JString ''r1'')])]))
     = Inr no_expiry_record
   \<and> Marshal no_expiry_record
     = Inr (JObject [(''gcrCreds'', JObject [(''access_token'', JString ''a1''),
                                            (''refresh_token'', JString ''r1''),
                                            (''token_expiry'', JNull)])])
   \<and> ''token_expiry''
       \<in> set (object_keys (JObject [(''access_token'', JString ''a1''),
                                   (''refresh_token'', JString ''r1''),
                                   (''token_expiry'', JNull)]))"
  by code_simp

text \<open>
  C7, amended. In the document written for a record, there is no \<^verbatim>\<open>gcrCreds\<close> key when
  the record has no tokens, and no \<^verbatim>\<open>otherCreds\<close> key when its map has length 0. When
  the record has tokens, their object has the three keys \<^verbatim>\<open>access_token\<close>,
  \<^verbatim>\<open>refresh_token\<close> and \<^verbatim>\<open>token_expiry\<close>, and \<^verbatim>\<open>token_expiry\<close> is \<^verbatim>\<open>null\<close> when there is no
  expiry.
\<close>

theorem encoder_omits:
  assumes "Marshal r = Inr j"
  shows "(GCRCreds r = None \<longrightarrow> ''gcrCreds'' \<notin> set (object_keys j))
       \<and> (map_len (OtherCreds r) = 0 \<longrightarrow> ''otherCreds'' \<notin> set (object_keys j))
       \<and> (GCRCreds r = Some t \<longrightarrow>
            (\<exists>g. object_member j ''gcrCreds'' = Some g
                \<and> object_keys g = [''access_token'', ''refresh_token'', ''token_expiry'']
                \<and> (TokenExpiry t = None \<longrightarrow> object_member g ''token_expiry'' = Some JNull)))"
  using assms
  by (cases "OtherCreds r")
     (auto simp: Marshal_def gcrCreds_members_def otherCreds_members_def encode_tokens_def
        fcard_fempty
        split: option.splits sum.splits if_splits)

theorem encoder_omits_witness:
  "Marshal no_expiry_record
     = Inr (JObject [(''gcrCreds'', JObject [(''access_token'', JString ''a1''),
                                            (''refresh_token'', JString ''r1''),
                                            (''token_expiry'', JNull)])])
   \<and> map_len (OtherCreds no_expiry_record) = 0
   \<and> ''otherCreds''
       \<notin> set (object_keys (JObject [(''gcrCreds'', JObject [(''access_token'', JString ''a1''),
                                            (''refresh_token'', JString ''r1''),
                                            (''token_expiry'', JNull)])]))
   \<and> Marshal \<lparr>GCRCreds = None, OtherCreds = Some fmempty\<rparr> = Inr (JObject [])
   \<and> ''gcrCreds'' \<notin> set (object_keys (JObject []))"
proof -
  have h: "Marshal no_expiry_record
     = Inr (JObject [(''gcrCreds'', JObject [(''access_token'', JString ''a1''),
                                            (''refresh_token'', JString ''r1''),
                                            (''token_expiry'', JNull)])])"
    by code_simp
  have l: "map_len (OtherCreds no_expiry_record) = 0"
    by (simp add: no_expiry_record_def)
  have h2: "Marshal \<lparr>GCRCreds = None, OtherCreds = Some fmempty\<rparr> = Inr (JObject [])"
    by code_simp
  have g: "GCRCreds \<lparr>GCRCreds = None, OtherCreds = Some fmempty\<rparr> = None"
    by simp
  from encoder_omits[OF h] l
  have 1: "''otherCreds''
       \<notin> set (object_keys (JObject [(''gcrCreds'', JObject [(''access_token'', JString ''a1''),
                                            (''refresh_token'', JString ''r1''),
                                            (''token_expiry'', JNull)])]))"
    by blast
  from encoder_omits[OF h2] g
  have 2: "''gcrCreds'' \<notin> set (object_keys (JObject []))"
    by blast
  show ?thesis using h l h2 1 2 by blast
qed

text \<open>
  C8. The prefix of errors. As stated (every error of every public operation carries
  the prefix \<^verbatim>\<open>docker-credential-gcr/store:\<close>) it fails for a missing file: the error
  of \<^verbatim>\<open>os.Open\<close> is returned as it is, and its message starts with \<^verbatim>\<open>open\<close>. The delete
  operations depend on that, since they test the returned error with \<^verbatim>\<open>os.IsNotExist\<close>.
\<close>

theorem prefix_counterexample:
  "GetOtherCreds example_store ''https://x'' empty_fs
     = Inl (PathError ''open'' (credentialPath example_store) ENOENT)
   \<and> \<not> carries_prefix (PathError ''open'' (credentialPath example_store) ENOENT)
   \<and> Error (PathError ''open'' (credentialPath example_store) ENOENT)
     = ''open /home/u/.config/gcloud/docker_credentials.json: no such file or directory''"
  by code_simp

text \<open>
  C8, amended. The errors that the store builds itself carry the prefix: the decode
  error of a file that does not decode (from all five operations that read without
  writing first), the error of \<open>GetOtherCreds\<close> for an absent credential, and the error
  of a set when the file cannot be created. The error for a missing file is the
  not-exist error of \<^verbatim>\<open>os.Open\<close>, returned unchanged and without the prefix.
\<close>

theorem store_errors_prefix:
  "(files fs (credentialPath s) = Some c \<and> Decode c = Inl e \<longrightarrow>
      (\<exists>d. carries_prefix d
          \<and> GetOtherCreds s u fs = Inl d \<and> AllThirdPartyCreds s fs = Inl d
          \<and> GetGCRAuth config s fs = Inl d
          \<and> fst (DeleteOtherCreds s u fs) = Some d \<and> fst (DeleteGCRAuth s fs) = Some d))
   \<and> (loadDockerCredentials s fs = Inr r \<and> map_index (OtherCreds r) u = None \<longrightarrow>
      (\<exists>d. carries_prefix d \<and> GetOtherCreds s u fs = Inl d))
   \<and> (mkdir_fault fs = None \<and> create_fault fs = Some e' \<longrightarrow>
      (\<exists>d. carries_prefix d
          \<and> fst (SetOtherCreds s cr fs) = Some d \<and> fst (SetGCRAuth s tok fs) = Some d))
   \<and> (files fs (credentialPath s) = None \<longrightarrow>
      GetOtherCreds s u fs = Inl (PathError ''open'' (credentialPath s) ENOENT)
      \<and> AllThirdPartyCreds s fs = Inl (PathError ''open'' (credentialPath s) ENOENT)
      \<and> GetGCRAuth config s fs = Inl (PathError ''open'' (credentialPath s) ENOENT)
      \<and> IsNotExist (PathError ''open'' (credentialPath s) ENOENT)
      \<and> \<not> carries_prefix (PathError ''open'' (credentialPath s) ENOENT))"
proof (intro conjI impI)
  assume a: "files fs (credentialPath s) = Some c \<and> Decode c = Inl e"
  let ?d = "authErr (''failed to decode credentials from '' @ credentialPath s) (Some e)"
  have l: "loadDockerCredentials s fs = Inl ?d"
    using a load_corrupt by blast
  have "carries_prefix ?d" by (rule carries_prefix_authErr)
  moreover have "GetOtherCreds s u fs = Inl ?d \<and> AllThirdPartyCreds s fs = Inl ?d
          \<and> GetGCRAuth config s fs = Inl ?d
          \<and> fst (DeleteOtherCreds s u fs) = Some ?d \<and> fst (DeleteGCRAuth s fs) = Some ?d"
    using l by (simp add: GetOtherCreds_def GetGCRAuth_def AllThirdPartyCreds_def
        DeleteGCRAuth_def DeleteOtherCreds_def)
  ultimately show "\<exists>d. carries_prefix d
          \<and> GetOtherCreds s u fs = Inl d \<and> AllThirdPartyCreds s fs = Inl d
          \<and> GetGCRAuth config s fs = Inl d
          \<and> fst (DeleteOtherCreds s u fs) = Some d \<and> fst (DeleteGCRAuth s fs) = Some d"
    by blast
next
  assume "loadDockerCredentials s fs = Inr r \<and> map_index (OtherCreds r) u = None"
  then have "GetOtherCreds s u fs = Inl (authErr (''no credentials present for '' @ u) None)"
    by (simp add: GetOtherCreds_def AllThirdPartyCreds_def)
  then show "\<exists>d. carries_prefix d \<and> GetOtherCreds s u fs = Inl d"
    using carries_prefix_authErr by blast
next
  assume a: "mkdir_fault fs = None \<and> create_fault fs = Some e'"
  let ?d = "authErr ''failed to create credential file'' (Some e')"
  have "fst (SetOtherCreds s cr fs) = Some ?d"
    using a by (simp add: SetOtherCreds_eq Let_def setDockerCredentials_create_fault)
  moreover have "fst (SetGCRAuth s tok fs) = Some ?d"
    using a by (simp add: SetGCRAuth_def Let_def setDockerCredentials_create_fault)
  ultimately show "\<exists>d. carries_prefix d
          \<and> fst (SetOtherCreds s cr fs) = Some d \<and> fst (SetGCRAuth s tok fs) = Some d"
    using carries_prefix_authErr by blast
next
  assume a: "files fs (credentialPath s) = None"
  have l: "loadDockerCredentials s fs = Inl (PathError ''open'' (credentialPath s) ENOENT)"
    using a by (rule load_absent)
  show "GetOtherCreds s u fs = Inl (PathError ''open'' (credentialPath s) ENOENT)"
    using l by (simp add: GetOtherCreds_def AllThirdPartyCreds_def)
  show "AllThirdPartyCreds s fs = Inl (PathError ''open'' (credentialPath s) ENOENT)"
    using l by (simp add: AllThirdPartyCreds_def)
  show "GetGCRAuth config s fs = Inl (PathError ''open'' (credentialPath s) ENOENT)"
    using l by (simp add: GetGCRAuth_def)
  show "IsNotExist (PathError ''open'' (credentialPath s) ENOENT)" by simp
  show "\<not> carries_prefix (PathError ''open'' (credentialPath s) ENOENT)"
    by (rule no_prefix_open)
qed

theorem store_errors_prefix_witness:
  "GetOtherCreds example_store ''https://x'' (fs_with corrupt_content)
     = Inl (authErr (''failed to decode credentials from '' @ credentialPath example_store)
              (Some (UnmarshalTypeError ''number'' ''map[string]credentials.Credentials'')))
   \<and> carries_prefix (authErr (''failed to decode credentials from '' @ credentialPath example_store)
              (Some (UnmarshalTypeError ''number'' ''map[string]credentials.Credentials'')))
   \<and> GetOtherCreds example_store ''https://y'' one_cred_fs
     = Inl (authErr (''no credentials present for '' @ ''https://y'') None)
   \<and> carries_prefix (authErr (''no credentials present for '' @ ''https://y'') None)
   \<and> fst (SetOtherCreds example_store example_cred no_create_fs)
     = Some (authErr ''failed to create credential file''
               (Some (PathError ''open'' (credentialPath example_store) EACCES)))
   \<and> carries_prefix (authErr ''failed to create credential file''
               (Some (PathError ''open'' (credentialPath example_store) EACCES)))
   \<and> GetGCRAuth example_constants example_store empty_fs
     = Inl (PathError ''open'' (credentialPath example_store) ENOENT)
   \<and> \<not> carries_prefix (PathError ''open'' (credentialPath example_store) ENOENT)"
proof -
  let ?r = "\<lparr>GCRCreds = None,
            OtherCreds = Some (fmupd ''https://x''
                                 \<lparr>ServerURL = [], Username = ''u'', Secret = ''s''\<rparr> fmempty)\<rparr>"
  have f: "files (fs_with corrupt_content) (credentialPath example_store) = Some corrupt_content"
    by (simp add: fs_with_def)
  have k: "Decode corrupt_content
           = Inl (UnmarshalTypeError ''number'' ''map[string]credentials.Credentials'')"
    by code_simp
  have y: "map_index (OtherCreds ?r) ''https://y'' = None"
    by code_simp
  have m: "mkdir_fault no_create_fs = None"
    "create_fault no_create_fs = Some (PathError ''open'' (credentialPath example_store) EACCES)"
    by (simp_all add: no_create_fs_def empty_fs_def)
  have a: "files empty_fs (credentialPath example_store) = None"
    by (simp add: empty_fs_def)
  have 1: "GetOtherCreds example_store ''https://x'' (fs_with corrupt_content)
     = Inl (authErr (''failed to decode credentials from '' @ credentialPath example_store)
              (Some (UnmarshalTypeError ''number'' ''map[string]credentials.Credentials'')))"
    by code_simp
  have 2: "GetOtherCreds example_store ''https://y'' one_cred_fs
     = Inl (authErr (''no credentials present for '' @ ''https://y'') None)"
    by code_simp
  have 3: "fst (SetOtherCreds example_store example_cred no_create_fs)
     = Some (authErr ''failed to create credential file''
               (Some (PathError ''open'' (credentialPath example_store) EACCES)))"
    by code_simp
  from store_errors_prefix[where fs="fs_with corrupt_content" and s=example_store
      and c=corrupt_content and u="''https://x''" and config=example_constants
      and e="UnmarshalTypeError ''number'' ''map[string]credentials.Credentials''"] f k 1
  have p1: "carries_prefix (authErr (''failed to decode credentials from '' @ credentialPath example_store)
              (Some (UnmarshalTypeError ''number'' ''map[string]credentials.Credentials'')))"
    by auto
  from store_errors_prefix[where fs=one_cred_fs and s=example_store and r="?r"
      and u="''https://y''"] load_one_cred_fs y 2
  have p2: "carries_prefix (authErr (''no credentials present for '' @ ''https://y'') None)"
    by auto
  from store_errors_prefix[where fs=no_create_fs and s=example_store and cr=example_cred
      and e'="PathError ''open'' (credentialPath example_store) EACCES"] m 3
  have p3: "carries_prefix (authErr ''failed to create credential file''
               (Some (PathError ''open'' (credentialPath example_store) EACCES)))"
    by auto
  from store_errors_prefix[where fs=empty_fs and s=example_store and config=example_constants] a
  have p4: "GetGCRAuth example_constants example_store empty_fs
     = Inl (PathError ''open'' (credentialPath example_store) ENOENT)
   \<and> \<not> carries_prefix (PathError ''open'' (credentialPath example_store) ENOENT)"
    by blast
  show ?thesis using 1 2 3 p1 p2 p3 p4 by blast
qed

text \<open>
  C9. \<open>SetOtherCreds\<close> writes through its argument. For every store, credential and
  file system, whatever the call returns, the credential as the caller sees it after
  the call is the argument with its \<open>ServerURL\<close> field empty. The field is cleared
  before anything is loaded or written, so this does not depend on the outcome of the
  write.
\<close>

theorem SetOtherCreds_clears_argument:
  "fst (snd (SetOtherCreds s c fs)) = c\<lparr>ServerURL := []\<rparr>
   \<and> ServerURL (fst (snd (SetOtherCreds s c fs))) = []"
  by (simp add: SetOtherCreds_eq Let_def)

text \<open>
  C10. \<open>AllThirdPartyCreds\<close> and the missing file. When the file is absent the call
  fails with the not-exist error of \<^verbatim>\<open>os.Open\<close>; it does not return an empty map. When
  the file decodes to a record whose map has length 0 (\<^verbatim>\<open>nil\<close> or empty), the call
  returns that map, of length 0, and no error.
\<close>

theorem AllThirdPartyCreds_missing_file:
  "(files fs (credentialPath s) = None \<longrightarrow>
      AllThirdPartyCreds s fs = Inl (PathError ''open'' (credentialPath s) ENOENT)
      \<and> IsNotExist (PathError ''open'' (credentialPath s) ENOENT))
   \<and> (files fs (credentialPath s) = Some c \<and> Decode c = Inr r \<and> map_len (OtherCreds r) = 0 \<longrightarrow>
      (\<exists>m. AllThirdPartyCreds s fs = Inr m \<and> map_len m = 0))"
  by (auto simp: AllThirdPartyCreds_def load_absent load_valid)

theorem AllThirdPartyCreds_missing_file_witness:
  "AllThirdPartyCreds example_store empty_fs
     = Inl (PathError ''open'' (credentialPath example_store) ENOENT)
   \<and> IsNotExist (PathError ''open'' (credentialPath example_store) ENOENT)
   \<and> AllThirdPartyCreds example_store (fs_with (Doc (JObject []))) = Inr None
   \<and> AllThirdPartyCreds example_store (fs_with empty_map_content) = Inr (Some fmempty)"
proof -
  have a: "files empty_fs (credentialPath example_store) = None"
    by (simp add: empty_fs_def)
  have f: "files (fs_with x) (credentialPath example_store) = Some x" for x
    by (simp add: fs_with_def)
  have d1: "Decode (Doc (JObject [])) = Inr \<lparr>GCRCreds = None, OtherCreds = None\<rparr>"
    by code_simp
  have d2: "Decode empty_map_content = Inr \<lparr>GCRCreds = None, OtherCreds = Some fmempty\<rparr>"
    by code_simp
  have l1: "map_len (OtherCreds \<lparr>GCRCreds = None, OtherCreds = None\<rparr>) = 0" by simp
  have l2: "map_len (OtherCreds \<lparr>GCRCreds = None, OtherCreds = Some fmempty\<rparr>) = 0"
    by (simp add: fcard_fempty)
  have 1: "AllThirdPartyCreds example_store empty_fs
     = Inl (PathError ''open'' (credentialPath example_store) ENOENT)
   \<and> IsNotExist (PathError ''open'' (credentialPath example_store) ENOENT)"
    using AllThirdPartyCreds_missing_file[where fs=empty_fs and s=example_store] a by blast
  have 2: "\<exists>m. AllThirdPartyCreds example_store (fs_with (Doc (JObject []))) = Inr m \<and> map_len m = 0"
    using AllThirdPartyCreds_missing_file[where fs="fs_with (Doc (JObject []))" and s=example_store
        and c="Doc (JObject [])" and r="\<lparr>GCRCreds = None, OtherCreds = None\<rparr>"] f d1 l1
    by blast
  have 3: "\<exists>m. AllThirdPartyCreds example_store (fs_with empty_map_content) = Inr m \<and> map_len m = 0"
    using AllThirdPartyCreds_missing_file[where fs="fs_with empty_map_content" and s=example_store
        and c=empty_map_content and r="\<lparr>GCRCreds = None, OtherCreds = Some fmempty\<rparr>"] f d2 l2
    by blast
  have 4: "AllThirdPartyCreds example_store (fs_with (Doc (JObject []))) = Inr None"
    by code_simp
  have 5: "AllThirdPartyCreds example_store (fs_with empty_map_content) = Inr (Some fmempty)"
    by code_simp
  show ?thesis using 1 2 3 4 5 by blast
qed

end
